theory Spec2Isabelle
  imports Main "HOL-Library.Word"
begin

unbundle bit_operations_syntax

section \<open>WebAuthn ceremonies of allauth.mfa.webauthn\<close>

text \<open>
  A shallow embedding of \<^verbatim>\<open>src/allauth/mfa/webauthn.py\<close>. The module is a thin, stateful
  layer over three collaborators: the request session (a key-value store), the database
  tables of authenticators and users, and the \<^verbatim>\<open>fido2\<close> library. The session, the tables
  and the operating system's entropy are the fields of an explicit \<open>world\<close> that every
  effectful function takes and returns; the library calls are the fields of an
  environment \<open>env\<close>, each a function that either raises or returns. A raised exception
  is the \<open>Inl\<close> branch of the result, and the world reached at the raise is returned with
  it, so that what a failed call leaves in the session can be stated.
\<close>

subsection \<open>Python values and exceptions\<close>

type_synonym byte = "8 word"

text \<open>The values that travel through the session, the JSON bodies and the JSON column.\<close>

datatype pyval =
    PNone
  | PBool bool
  | PInt int
  | PStr string
  | PBytes "byte list"
  | PList "pyval list"
  | PDict "(string \<times> pyval) list"

text \<open>
  Exception classes as the \<^verbatim>\<open>except\<close> clauses of the module tell them apart. A subclass is
  modelled by the class a handler matches it under (\<^verbatim>\<open>binascii.Error\<close> and
  \<^verbatim>\<open>UnicodeDecodeError\<close> are \<open>ValueError\<close>). \<open>ValidationError code\<close> is Django's
  \<^verbatim>\<open>ValidationError\<close> carrying its \<^verbatim>\<open>code\<close>.
\<close>

datatype exn =
    ValueError
  | TypeError
  | KeyError
  | AttributeError
  | ValidationError string
  | OtherException string

text \<open>\<^verbatim>\<open>d.get(key, default)\<close>: only a dict has the method; on any other value the attribute
  lookup itself raises \<^verbatim>\<open>AttributeError\<close>.\<close>

fun py_get :: "pyval \<Rightarrow> string \<Rightarrow> pyval \<Rightarrow> exn + pyval" where
  "py_get (PDict kvs) k dflt = (case map_of kvs k of None \<Rightarrow> Inr dflt | Some v \<Rightarrow> Inr v)"
| "py_get v k dflt = Inl AttributeError"

text \<open>\<^verbatim>\<open>d[key]\<close> on the JSON column of a record, a dict: a missing key raises \<^verbatim>\<open>KeyError\<close>.\<close>

definition py_getitem :: "(string \<times> pyval) list \<Rightarrow> string \<Rightarrow> exn + pyval" where
  "py_getitem kvs k = (case map_of kvs k of None \<Rightarrow> Inl KeyError | Some v \<Rightarrow> Inr v)"

subsection \<open>Data model\<close>

record user =
  user_pk :: pyval

text \<open>Modelled from the spec: \<^verbatim>\<open>Authenticator.Type\<close> of \<^verbatim>\<open>allauth.mfa.models\<close>, the type
  discriminator of an authenticator record, of which this module uses \<^verbatim>\<open>WEBAUTHN\<close>.\<close>

datatype authenticator_type = TOTP | RECOVERY_CODES | WEBAUTHN

text \<open>Modelled from the spec: the \<^verbatim>\<open>Authenticator\<close> model of \<^verbatim>\<open>allauth.mfa.models\<close>: the owning
  user (by primary key), the type discriminator and the attributes blob (a JSON object).\<close>

record authenticator =
  auth_user :: pyval
  auth_type :: authenticator_type
  data :: "(string \<times> pyval) list"

text \<open>\<^verbatim>\<open>fido2.webauthn.AttestedCredentialData\<close> and \<^verbatim>\<open>AuthenticatorData\<close>: both are byte strings
  with parsed attributes; \<open>credential_data\<close> is \<^verbatim>\<open>None\<close> when the authenticator data carries
  no attested credential.\<close>

record attested_credential_data =
  aaguid :: "byte list"
  credential_id :: "byte list"
  public_key :: pyval

record authenticator_data =
  ad_bytes :: "byte list"
  credential_data :: "attested_credential_data option"

datatype user_verification = REQUIRED | PREFERRED | DISCOURAGED

text \<open>The \<^verbatim>\<open>Fido2Server\<close> that \<^verbatim>\<open>get_server\<close> builds: its relying party and whether every
  origin is accepted (\<^verbatim>\<open>verify_origin = lambda o: True\<close>) or the library's default check
  is used (\<^verbatim>\<open>verify_origin = None\<close>).\<close>

record fido2_server =
  rp_name :: string
  rp_id :: string
  verify_origin_any :: bool

text \<open>One entry per call made to the server object, with the arguments passed.\<close>

datatype call =
    RegisterBegin fido2_server pyval "attested_credential_data list" user_verification "byte list"
  | RegisterComplete fido2_server pyval pyval
  | AuthenticateBegin fido2_server "attested_credential_data list" user_verification "byte list"
  | AuthenticateComplete fido2_server pyval "attested_credential_data list" pyval

text \<open>
  The world: \<^verbatim>\<open>context.request.session\<close>, the rows of the authenticator and user tables in
  storage order, the bytes \<^verbatim>\<open>os.urandom\<close> will hand out next, and the log of the calls
  made to the server object so far (the log is only written, never read, by the module).
\<close>

record world =
  session :: "string \<rightharpoonup> pyval"
  authenticators :: "authenticator list"
  users :: "user list"
  entropy :: "nat \<Rightarrow> byte"
  calls :: "call list"

text \<open>
  The environment: the functions the module imports. Each either raises or returns.
  \<open>url_str_to_user_pk\<close> is \<^verbatim>\<open>allauth.account.utils.url_str_to_user_pk\<close> and
  \<open>get_public_key_credential_user_entity\<close> is the adapter hook; neither is in the module,
  and both are taken as parameters. The four server operations take the server object
  they are methods of as their first argument.
\<close>

record env =
  WEBAUTHN_ALLOW_INSECURE_ORIGIN :: bool
  websafe_encode :: "byte list \<Rightarrow> string"
  websafe_decode :: "pyval \<Rightarrow> exn + byte list"
  b64decode :: "pyval \<Rightarrow> exn + byte list"
  bytes_decode_utf8 :: "byte list \<Rightarrow> exn + string"
  AuthenticatorData :: "byte list \<Rightarrow> exn + authenticator_data"
  PublicKeyCredentialUserEntity :: "pyval \<Rightarrow> exn + pyval"
  RegistrationResponse_from_dict :: "pyval \<Rightarrow> exn + pyval"
  AuthenticationResponse_from_dict :: "pyval \<Rightarrow> exn + pyval"
  register_begin :: "fido2_server \<Rightarrow> pyval \<Rightarrow> attested_credential_data list \<Rightarrow>
     user_verification \<Rightarrow> byte list \<Rightarrow> exn + (pyval \<times> pyval)"
  register_complete :: "fido2_server \<Rightarrow> pyval \<Rightarrow> pyval \<Rightarrow> exn + authenticator_data"
  authenticate_begin :: "fido2_server \<Rightarrow> attested_credential_data list \<Rightarrow>
     user_verification \<Rightarrow> byte list \<Rightarrow> exn + (pyval \<times> pyval)"
  authenticate_complete :: "fido2_server \<Rightarrow> pyval \<Rightarrow> attested_credential_data list \<Rightarrow>
     pyval \<Rightarrow> exn + attested_credential_data"
  url_str_to_user_pk :: "string \<Rightarrow> exn + pyval"
  get_public_key_credential_user_entity :: "user \<Rightarrow> exn + pyval"

text \<open>Modelled from the spec: \<^verbatim>\<open>get_adapter().validation_error(code)\<close> of
  \<^verbatim>\<open>allauth.mfa.adapter\<close>, which builds the generic validation error carrying \<open>code\<close>.\<close>

definition validation_error :: "string \<Rightarrow> exn" where
  "validation_error code = ValidationError code"

subsection \<open>Session keys, challenge manager, ceremony state store\<close>

definition CHALLENGE_SESSION_KEY :: string where
  "CHALLENGE_SESSION_KEY = ''mfa.webauthn.challenge''"

definition STATE_SESSION_KEY :: string where
  "STATE_SESSION_KEY = ''mfa.webauthn.state''"

text \<open>\<^verbatim>\<open>session.get(key)\<close>: \<^verbatim>\<open>None\<close> when the key is absent.\<close>

definition session_get :: "world \<Rightarrow> string \<Rightarrow> pyval" where
  "session_get w k = (case session w k of None \<Rightarrow> PNone | Some v \<Rightarrow> v)"

text \<open>\<^verbatim>\<open>session[key] = v\<close> and \<^verbatim>\<open>session.pop(key, None)\<close>.\<close>

definition session_set :: "string \<Rightarrow> pyval \<Rightarrow> world \<Rightarrow> world" where
  "session_set k v w = w\<lparr>session := (session w)(k \<mapsto> v)\<rparr>"

definition session_pop :: "string \<Rightarrow> world \<Rightarrow> world" where
  "session_pop k w = w\<lparr>session := (session w)(k := None)\<rparr>"

text \<open>\<^verbatim>\<open>os.urandom(n)\<close>: the next \<open>n\<close> bytes of the entropy source, which moves on.\<close>

definition os_urandom :: "nat \<Rightarrow> world \<Rightarrow> byte list \<times> world" where
  "os_urandom n w = (map (entropy w) [0..<n], w\<lparr>entropy := (\<lambda>i. entropy w (n + i))\<rparr>)"

definition generate_challenge :: "env \<Rightarrow> world \<Rightarrow> (exn + byte list) \<times> world" where
  "generate_challenge E w =
     (let challenge = session_get w CHALLENGE_SESSION_KEY in
      if challenge \<noteq> PNone then (websafe_decode E challenge, w)
      else
        (let (challenge, w1) = os_urandom 32 w in
         (Inr challenge,
          session_set CHALLENGE_SESSION_KEY (PStr (websafe_encode E challenge)) w1)))"

definition consume_challenge :: "world \<Rightarrow> world" where
  "consume_challenge w = session_pop CHALLENGE_SESSION_KEY w"

definition get_state :: "world \<Rightarrow> pyval" where
  "get_state w = session_get w STATE_SESSION_KEY"

definition set_state :: "pyval \<Rightarrow> world \<Rightarrow> world" where
  "set_state state w = session_set STATE_SESSION_KEY state w"

definition clear_state :: "world \<Rightarrow> world" where
  "clear_state w = session_pop STATE_SESSION_KEY w"

definition get_server :: "env \<Rightarrow> fido2_server" where
  "get_server E =
     \<lparr>rp_name = ''allauth'', rp_id = ''localhost'',
      verify_origin_any = WEBAUTHN_ALLOW_INSECURE_ORIGIN E\<rparr>"

subsection \<open>Parsing the client's response\<close>

definition parse_registration_response :: "env \<Rightarrow> pyval \<Rightarrow> exn + pyval" where
  "parse_registration_response E response =
     (case RegistrationResponse_from_dict E response of
        Inl e \<Rightarrow> if e = TypeError then Inl (validation_error ''incorrect_code'') else Inl e
      | Inr r \<Rightarrow> Inr r)"

definition parse_authentication_response :: "env \<Rightarrow> pyval \<Rightarrow> exn + pyval" where
  "parse_authentication_response E response =
     (case AuthenticationResponse_from_dict E response of
        Inl e \<Rightarrow> if e = TypeError then Inl (validation_error ''incorrect_code'') else Inl e
      | Inr r \<Rightarrow> Inr r)"

subsection \<open>Authenticator record adapter: class WebAuthn\<close>

text \<open>The wrapper object: its one attribute, \<^verbatim>\<open>self.instance\<close>, is the field \<open>wa_instance\<close>.\<close>

record webauthn =
  wa_instance :: authenticator

text \<open>\<^verbatim>\<open>WebAuthn.add\<close>: builds the record, saves it (the row is appended to the table) and
  returns the wrapper around it.\<close>

definition add :: "user \<Rightarrow> string \<Rightarrow> string \<Rightarrow> bool \<Rightarrow> world \<Rightarrow> webauthn \<times> world" where
  "add usr name authenticator_data passwordless w =
     (let inst = \<lparr>auth_user = user_pk usr, auth_type = WEBAUTHN,
                  data = [(''name'', PStr name),
                          (''authenticator_data'', PStr authenticator_data),
                          (''passwordless'', PBool passwordless)]\<rparr>
      in (\<lparr>wa_instance = inst\<rparr>, w\<lparr>authenticators := authenticators w @ [inst]\<rparr>))"

definition name :: "webauthn \<Rightarrow> exn + pyval" where
  "name self = py_getitem (data (wa_instance self)) ''name''"

definition authenticator_data :: "env \<Rightarrow> webauthn \<Rightarrow> exn + authenticator_data" where
  "authenticator_data E self =
     (case py_getitem (data (wa_instance self)) ''authenticator_data'' of
        Inl e \<Rightarrow> Inl e
      | Inr blob \<Rightarrow>
          (case b64decode E blob of
             Inl e \<Rightarrow> Inl e
           | Inr raw \<Rightarrow> AuthenticatorData E raw))"

definition is_passwordless :: "webauthn \<Rightarrow> exn + pyval" where
  "is_passwordless self = py_getitem (data (wa_instance self)) ''passwordless''"

text \<open>Modelled from the spec: \<^verbatim>\<open>Authenticator.wrap\<close> of \<^verbatim>\<open>allauth.mfa.models\<close>, which for a
  record of type \<^verbatim>\<open>WEBAUTHN\<close> (the only records this module wraps) returns the
  \<^verbatim>\<open>WebAuthn\<close> view of the record.\<close>

definition wrap :: "authenticator \<Rightarrow> webauthn" where
  "wrap a = \<lparr>wa_instance = a\<rparr>"

definition serialize_authenticator_data :: "(byte list \<Rightarrow> string) \<Rightarrow> authenticator_data \<Rightarrow> string" where
  "serialize_authenticator_data b64encode ad = b64encode (ad_bytes ad)"

subsection \<open>Credential repository\<close>

text \<open>
  The loop of \<^verbatim>\<open>get_credentials\<close> over the rows that the query returns. The source reads
  the property \<^verbatim>\<open>authenticator.wrap().authenticator_data.credential_data\<close> twice, for the
  test and for the append; it is a function of the row alone, so both reads agree and the
  model binds it once. An \<^verbatim>\<open>AttestedCredentialData\<close> is a non-empty byte string, hence
  truthy; the test fails exactly for \<^verbatim>\<open>None\<close>.
\<close>

fun get_credentials_loop ::
  "env \<Rightarrow> authenticator list \<Rightarrow> attested_credential_data list \<Rightarrow>
   exn + attested_credential_data list" where
  "get_credentials_loop E [] credentials = Inr credentials"
| "get_credentials_loop E (a # rest) credentials =
     (case authenticator_data E (wrap a) of
        Inl e \<Rightarrow> Inl e
      | Inr ad \<Rightarrow>
          (case credential_data ad of
             None \<Rightarrow> get_credentials_loop E rest credentials
           | Some cd \<Rightarrow> get_credentials_loop E rest (credentials @ [cd])))"

definition get_credentials ::
  "env \<Rightarrow> user \<Rightarrow> world \<Rightarrow> exn + attested_credential_data list" where
  "get_credentials E usr w =
     get_credentials_loop E
       (filter (\<lambda>a. auth_user a = user_pk usr \<and> auth_type a = WEBAUTHN) (authenticators w)) []"

text \<open>The expression \<^verbatim>\<open>authenticator.wrap().authenticator_data.credential_data.credential_id\<close>
  that \<^verbatim>\<open>get_authenticator_by_credential_id\<close> compares with. Reading \<^verbatim>\<open>.credential_id\<close> of a
  \<^verbatim>\<open>credential_data\<close> that is \<^verbatim>\<open>None\<close> raises \<^verbatim>\<open>AttributeError\<close>.\<close>

definition record_credential_id :: "env \<Rightarrow> authenticator \<Rightarrow> exn + byte list" where
  "record_credential_id E a =
     (case authenticator_data E (wrap a) of
        Inl e \<Rightarrow> Inl e
      | Inr ad \<Rightarrow>
          (case credential_data ad of
             None \<Rightarrow> Inl AttributeError
           | Some cd \<Rightarrow> Inr (credential_id cd)))"

text \<open>The loop of \<^verbatim>\<open>get_authenticator_by_credential_id\<close> over the rows of the query.\<close>

fun get_authenticator_by_credential_id_loop ::
  "env \<Rightarrow> byte list \<Rightarrow> authenticator list \<Rightarrow> exn + authenticator option" where
  "get_authenticator_by_credential_id_loop E cid [] = Inr None"
| "get_authenticator_by_credential_id_loop E cid (a # rest) =
     (case record_credential_id E a of
        Inl e \<Rightarrow> Inl e
      | Inr c \<Rightarrow>
          if cid = c then Inr (Some a)
          else get_authenticator_by_credential_id_loop E cid rest)"

definition get_authenticator_by_credential_id ::
  "env \<Rightarrow> user \<Rightarrow> byte list \<Rightarrow> world \<Rightarrow> exn + authenticator option" where
  "get_authenticator_by_credential_id E usr cid w =
     get_authenticator_by_credential_id_loop E cid
       (filter (\<lambda>a. auth_type a = WEBAUTHN) (authenticators w))"

subsection \<open>Relying-party ceremony engine\<close>

definition build_user_payload :: "env \<Rightarrow> user \<Rightarrow> exn + pyval" where
  "build_user_payload E usr =
     (case get_public_key_credential_user_entity E usr of
        Inl e \<Rightarrow> Inl e
      | Inr kwargs \<Rightarrow> PublicKeyCredentialUserEntity E kwargs)"

text \<open>A call to the server object is recorded in the log, then answered by the library.\<close>

definition log_call :: "call \<Rightarrow> world \<Rightarrow> world" where
  "log_call c w = w\<lparr>calls := calls w @ [c]\<rparr>"

text \<open>Python evaluates the keyword arguments of \<^verbatim>\<open>register_begin\<close> left to right:
  \<^verbatim>\<open>build_user_payload(user)\<close> before \<^verbatim>\<open>generate_challenge()\<close>.\<close>

definition begin_registration :: "env \<Rightarrow> user \<Rightarrow> world \<Rightarrow> (exn + pyval) \<times> world" where
  "begin_registration E usr w =
     (let server = get_server E in
      case get_credentials E usr w of
        Inl e \<Rightarrow> (Inl e, w)
      | Inr credentials \<Rightarrow>
          (case build_user_payload E usr of
             Inl e \<Rightarrow> (Inl e, w)
           | Inr payload \<Rightarrow>
               (case generate_challenge E w of
                  (Inl e, w1) \<Rightarrow> (Inl e, w1)
                | (Inr challenge, w1) \<Rightarrow>
                    (let w2 = log_call
                           (RegisterBegin server payload credentials DISCOURAGED challenge) w1
                     in case register_begin E server payload credentials DISCOURAGED challenge of
                          Inl e \<Rightarrow> (Inl e, w2)
                        | Inr (registration_data, state) \<Rightarrow>
                            (Inr registration_data, set_state state w2)))))"

definition complete_registration ::
  "env \<Rightarrow> pyval \<Rightarrow> world \<Rightarrow> (exn + authenticator_data) \<times> world" where
  "complete_registration E credential w =
     (let server = get_server E;
          state = get_state w;
          w1 = log_call (RegisterComplete server state credential) w
      in case register_complete E server state credential of
           Inl e \<Rightarrow> (Inl e, w1)
         | Inr binding \<Rightarrow> (Inr binding, clear_state (consume_challenge w1)))"

text \<open>\<^verbatim>\<open>get_credentials(user) if user else []\<close>: a user object is truthy, so the test fails
  exactly for \<^verbatim>\<open>None\<close>.\<close>

definition begin_authentication ::
  "env \<Rightarrow> user option \<Rightarrow> world \<Rightarrow> (exn + pyval) \<times> world" where
  "begin_authentication E usr w =
     (let server = get_server E in
      case (case usr of None \<Rightarrow> Inr [] | Some u \<Rightarrow> get_credentials E u w) of
        Inl e \<Rightarrow> (Inl e, w)
      | Inr credentials \<Rightarrow>
          (case generate_challenge E w of
             (Inl e, w1) \<Rightarrow> (Inl e, w1)
           | (Inr challenge, w1) \<Rightarrow>
               (let w2 = log_call (AuthenticateBegin server credentials PREFERRED challenge) w1
                in case authenticate_begin E server credentials PREFERRED challenge of
                     Inl e \<Rightarrow> (Inl e, w2)
                   | Inr (request_options, state) \<Rightarrow>
                       (Inr request_options, set_state state w2))))"

text \<open>The body of the \<^verbatim>\<open>try\<close> of \<^verbatim>\<open>extract_user_from_response\<close>.\<close>

definition extract_user_pk :: "env \<Rightarrow> pyval \<Rightarrow> exn + pyval" where
  "extract_user_pk E response =
     (case py_get response ''response'' (PDict []) of
        Inl e \<Rightarrow> Inl e
      | Inr inner \<Rightarrow>
          (case py_get inner ''userHandle'' PNone of
             Inl e \<Rightarrow> Inl e
           | Inr user_handle \<Rightarrow>
               (case websafe_decode E user_handle of
                  Inl e \<Rightarrow> Inl e
                | Inr raw \<Rightarrow>
                    (case bytes_decode_utf8 E raw of
                       Inl e \<Rightarrow> Inl e
                     | Inr pk_str \<Rightarrow> url_str_to_user_pk E pk_str))))"

text \<open>\<^verbatim>\<open>except (ValueError, TypeError, KeyError)\<close> turns these three into the validation
  error; any other exception leaves the function as it is. The query
  \<^verbatim>\<open>filter(pk=user_pk).first()\<close> is the first row with that primary key.\<close>

definition extract_user_from_response :: "env \<Rightarrow> pyval \<Rightarrow> world \<Rightarrow> exn + user" where
  "extract_user_from_response E response w =
     (case extract_user_pk E response of
        Inl e \<Rightarrow>
          if e = ValueError \<or> e = TypeError \<or> e = KeyError
          then Inl (validation_error ''incorrect_code'') else Inl e
      | Inr pk \<Rightarrow>
          (case find (\<lambda>u. user_pk u = pk) (users w) of
             None \<Rightarrow> Inl (validation_error ''incorrect_code'')
           | Some u \<Rightarrow> Inr u))"

definition complete_authentication ::
  "env \<Rightarrow> user option \<Rightarrow> pyval \<Rightarrow> world \<Rightarrow> (exn + authenticator option) \<times> world" where
  "complete_authentication E usr response w =
     (case (case usr of None \<Rightarrow> extract_user_from_response E response w | Some u \<Rightarrow> Inr u) of
        Inl e \<Rightarrow> (Inl e, w)
      | Inr u \<Rightarrow>
          (case get_credentials E u w of
             Inl e \<Rightarrow> (Inl e, w)
           | Inr credentials \<Rightarrow>
               (let server = get_server E;
                    state = get_state w;
                    w1 = log_call (AuthenticateComplete server state credentials response) w
                in case authenticate_complete E server state credentials response of
                     Inl e \<Rightarrow>
                       if e = ValueError then (Inl (validation_error ''incorrect_code''), w1)
                       else (Inl e, w1)
                   | Inr binding \<Rightarrow>
                       (let w2 = clear_state (consume_challenge w1)
                        in (get_authenticator_by_credential_id E u (credential_id binding) w2,
                            w2)))))"

subsection \<open>An example environment\<close>

text \<open>
  The theorems below hold for every environment. To run the module on concrete inputs,
  this section gives one: unpadded URL-safe base64 (RFC 4648, section 5) for the websafe
  codec, standard base64 for the stored blob, the WebAuthn layout of authenticator data
  (32 bytes of relying-party hash, one byte of flags, four bytes of counter and, when the
  flag \<open>0x40\<close> is set, a 16-byte AAGUID, a two-byte big-endian length, the credential
  identifier and the public key), primary keys written in base 36, and a server object
  that checks the challenge and the credential identifier and leaves out the signature.
\<close>

text \<open>The character of a six-bit value and back; the two alphabets differ in the
  characters for 62 and 63 only. All arithmetic is on \<open>int\<close>.\<close>

definition b64_char :: "char \<Rightarrow> char \<Rightarrow> int \<Rightarrow> char" where
  "b64_char c62 c63 n =
     (if n < 26 then char_of (n + 65)
      else if n < 52 then char_of (n + 71)
      else if n < 62 then char_of (n - 4)
      else if n = 62 then c62 else c63)"

definition b64_value :: "char \<Rightarrow> char \<Rightarrow> char \<Rightarrow> int option" where
  "b64_value c62 c63 c =
     (let n = (of_char c :: int) in
      if 65 \<le> n \<and> n \<le> 90 then Some (n - 65)
      else if 97 \<le> n \<and> n \<le> 122 then Some (n - 71)
      else if 48 \<le> n \<and> n \<le> 57 then Some (n + 4)
      else if c = c62 then Some 62
      else if c = c63 then Some 63
      else None)"

fun b64_encode_groups :: "(int \<Rightarrow> char) \<Rightarrow> byte list \<Rightarrow> string" where
  "b64_encode_groups ch (a # b # c # rest) =
     (let n = uint a * 65536 + uint b * 256 + uint c
      in ch (n div 262144) # ch (n div 4096 mod 64) # ch (n div 64 mod 64) # ch (n mod 64)
         # b64_encode_groups ch rest)"
| "b64_encode_groups ch [a, b] =
     (let n = uint a * 1024 + uint b * 4
      in [ch (n div 4096), ch (n div 64 mod 64), ch (n mod 64)])"
| "b64_encode_groups ch [a] =
     (let n = uint a * 16 in [ch (n div 64), ch (n mod 64)])"
| "b64_encode_groups ch [] = []"

fun b64_decode_groups :: "int list \<Rightarrow> byte list option" where
  "b64_decode_groups (a # b # c # d # rest) =
     (let n = ((a * 64 + b) * 64 + c) * 64 + d
      in map_option
           (\<lambda>r. of_int (n div 65536) # of_int (n div 256 mod 256) # of_int (n mod 256) # r)
           (b64_decode_groups rest))"
| "b64_decode_groups [a, b, c] =
     (let n = (a * 64 + b) * 64 + c in Some [of_int (n div 1024), of_int (n div 4 mod 256)])"
| "b64_decode_groups [a, b] = Some [of_int ((a * 64 + b) div 16)]"
| "b64_decode_groups [a] = None"
| "b64_decode_groups [] = Some []"

fun b64_sextets :: "(char \<Rightarrow> int option) \<Rightarrow> string \<Rightarrow> int list option" where
  "b64_sextets val [] = Some []"
| "b64_sextets val (c # cs) =
     (case val c of None \<Rightarrow> None | Some i \<Rightarrow> map_option ((#) i) (b64_sextets val cs))"

definition b64_decode_with :: "(char \<Rightarrow> int option) \<Rightarrow> string \<Rightarrow> exn + byte list" where
  "b64_decode_with val s =
     (case b64_sextets val (takeWhile (\<lambda>c. c \<noteq> CHR ''='') s) of
        None \<Rightarrow> Inl ValueError
      | Some xs \<Rightarrow> (case b64_decode_groups xs of None \<Rightarrow> Inl ValueError | Some bs \<Rightarrow> Inr bs))"

definition example_websafe_encode :: "byte list \<Rightarrow> string" where
  "example_websafe_encode bs = b64_encode_groups (b64_char CHR ''-'' CHR ''_'') bs"

definition example_websafe_decode :: "pyval \<Rightarrow> exn + byte list" where
  "example_websafe_decode v =
     (case v of PStr s \<Rightarrow> b64_decode_with (b64_value CHR ''-'' CHR ''_'') s | _ \<Rightarrow> Inl TypeError)"

definition example_b64decode :: "pyval \<Rightarrow> exn + byte list" where
  "example_b64decode v =
     (case v of PStr s \<Rightarrow> b64_decode_with (b64_value CHR ''+'' CHR ''/'') s | _ \<Rightarrow> Inl TypeError)"

definition example_decode_utf8 :: "byte list \<Rightarrow> exn + string" where
  "example_decode_utf8 bs =
     (if list_all (\<lambda>b. uint b < 128) bs then Inr (map (\<lambda>b. char_of (uint b)) bs)
      else Inl ValueError)"

definition example_AuthenticatorData :: "byte list \<Rightarrow> exn + authenticator_data" where
  "example_AuthenticatorData raw =
     (if length raw < 37 then Inl ValueError
      else if (raw ! 32) AND 64 = 0 then Inr \<lparr>ad_bytes = raw, credential_data = None\<rparr>
      else
        (let rest = drop 37 raw in
         if length rest < 18 then Inl ValueError
         else
           (let n = nat (uint (rest ! 16) * 256 + uint (rest ! 17)) in
            if length rest < 18 + n then Inl ValueError
            else Inr \<lparr>ad_bytes = raw,
                      credential_data =
                        Some \<lparr>aaguid = take 16 rest,
                              credential_id = take n (drop 18 rest),
                              public_key = PBytes (drop (18 + n) rest)\<rparr>\<rparr>)))"

fun base36_to_int :: "int \<Rightarrow> string \<Rightarrow> int option" where
  "base36_to_int acc [] = Some acc"
| "base36_to_int acc (c # cs) =
     (let n = (of_char c :: int) in
      if 48 \<le> n \<and> n \<le> 57 then base36_to_int (acc * 36 + (n - 48)) cs
      else if 97 \<le> n \<and> n \<le> 122 then base36_to_int (acc * 36 + (n - 87)) cs
      else None)"

definition example_url_str_to_user_pk :: "string \<Rightarrow> exn + pyval" where
  "example_url_str_to_user_pk s =
     (if s = [] then Inl ValueError
      else case base36_to_int 0 s of None \<Rightarrow> Inl ValueError | Some n \<Rightarrow> Inr (PInt n))"

text \<open>The structured response needs the keys \<open>id\<close> and \<open>response\<close>: without them the
  constructor raises \<^verbatim>\<open>TypeError\<close>; an \<open>id\<close> that is not websafe base64 raises
  \<^verbatim>\<open>ValueError\<close>.\<close>

definition example_from_dict :: "pyval \<Rightarrow> exn + pyval" where
  "example_from_dict v =
     (case v of
        PDict kvs \<Rightarrow>
          (case (map_of kvs ''id'', map_of kvs ''response'') of
             (Some i, Some r) \<Rightarrow>
               (case example_websafe_decode i of
                  Inl e \<Rightarrow> Inl ValueError
                | Inr raw \<Rightarrow> Inr (PDict [(''id'', PBytes raw), (''response'', r)]))
           | _ \<Rightarrow> Inl TypeError)
      | _ \<Rightarrow> Inl TypeError)"

definition uv_name :: "user_verification \<Rightarrow> string" where
  "uv_name uv = (case uv of REQUIRED \<Rightarrow> ''required'' | PREFERRED \<Rightarrow> ''preferred''
                 | DISCOURAGED \<Rightarrow> ''discouraged'')"

definition example_state :: "user_verification \<Rightarrow> byte list \<Rightarrow> pyval" where
  "example_state uv challenge =
     PDict [(''challenge'', PStr (example_websafe_encode challenge)),
            (''user_verification'', PStr (uv_name uv))]"

definition example_register_begin ::
  "fido2_server \<Rightarrow> pyval \<Rightarrow> attested_credential_data list \<Rightarrow> user_verification \<Rightarrow>
   byte list \<Rightarrow> exn + (pyval \<times> pyval)" where
  "example_register_begin srv payload credentials uv challenge =
     Inr (PDict [(''rp'', PStr (rp_id srv)), (''user'', payload),
                 (''challenge'', PStr (example_websafe_encode challenge)),
                 (''excludeCredentials'', PList (map (\<lambda>c. PBytes (credential_id c)) credentials)),
                 (''userVerification'', PStr (uv_name uv))],
          example_state uv challenge)"

definition example_authenticate_begin ::
  "fido2_server \<Rightarrow> attested_credential_data list \<Rightarrow> user_verification \<Rightarrow>
   byte list \<Rightarrow> exn + (pyval \<times> pyval)" where
  "example_authenticate_begin srv credentials uv challenge =
     Inr (PDict [(''rpId'', PStr (rp_id srv)),
                 (''challenge'', PStr (example_websafe_encode challenge)),
                 (''allowCredentials'', PList (map (\<lambda>c. PBytes (credential_id c)) credentials)),
                 (''userVerification'', PStr (uv_name uv))],
          example_state uv challenge)"

text \<open>Whether the response answers the challenge of the stored state; a state that is
  \<^verbatim>\<open>None\<close> cannot be subscripted.\<close>

definition example_check_challenge :: "pyval \<Rightarrow> pyval \<Rightarrow> exn + unit" where
  "example_check_challenge state response =
     (case state of
        PDict st \<Rightarrow>
          (case map_of st ''challenge'' of
             None \<Rightarrow> Inl KeyError
           | Some ch \<Rightarrow>
               (case py_get response ''challenge'' PNone of
                  Inl e \<Rightarrow> Inl TypeError
                | Inr ch' \<Rightarrow> if ch' = ch then Inr () else Inl ValueError))
      | _ \<Rightarrow> Inl TypeError)"

definition example_register_complete ::
  "fido2_server \<Rightarrow> pyval \<Rightarrow> pyval \<Rightarrow> exn + authenticator_data" where
  "example_register_complete srv state response =
     (case example_check_challenge state response of
        Inl e \<Rightarrow> Inl e
      | Inr _ \<Rightarrow>
          (case py_get response ''authenticatorData'' PNone of
             Inl e \<Rightarrow> Inl TypeError
           | Inr blob \<Rightarrow>
               (case example_websafe_decode blob of
                  Inl e \<Rightarrow> Inl e
                | Inr raw \<Rightarrow> example_AuthenticatorData raw)))"

definition example_authenticate_complete ::
  "fido2_server \<Rightarrow> pyval \<Rightarrow> attested_credential_data list \<Rightarrow> pyval \<Rightarrow>
   exn + attested_credential_data" where
  "example_authenticate_complete srv state credentials response =
     (case example_check_challenge state response of
        Inl e \<Rightarrow> Inl e
      | Inr _ \<Rightarrow>
          (case py_get response ''id'' PNone of
             Inl e \<Rightarrow> Inl TypeError
           | Inr i \<Rightarrow>
               (case example_websafe_decode i of
                  Inl e \<Rightarrow> Inl e
                | Inr cid \<Rightarrow>
                    (case find (\<lambda>c. credential_id c = cid) credentials of
                       None \<Rightarrow> Inl ValueError
                     | Some c \<Rightarrow> Inr c))))"

definition example_env :: env where
  "example_env =
     \<lparr>WEBAUTHN_ALLOW_INSECURE_ORIGIN = False,
      websafe_encode = example_websafe_encode,
      websafe_decode = example_websafe_decode,
      b64decode = example_b64decode,
      bytes_decode_utf8 = example_decode_utf8,
      AuthenticatorData = example_AuthenticatorData,
      PublicKeyCredentialUserEntity = Inr,
      RegistrationResponse_from_dict = example_from_dict,
      AuthenticationResponse_from_dict = example_from_dict,
      register_begin = example_register_begin,
      register_complete = example_register_complete,
      authenticate_begin = example_authenticate_begin,
      authenticate_complete = example_authenticate_complete,
      url_str_to_user_pk = example_url_str_to_user_pk,
      get_public_key_credential_user_entity =
        (\<lambda>u. Inr (PDict [(''id'', user_pk u), (''name'', PStr ''user''),
                          (''display_name'', PStr ''user'')]))\<rparr>"

subsection \<open>Example data\<close>

text \<open>
  Two users, with primary keys 1 and 71 (\<open>1z\<close> in base 36). Four stored records, in
  storage order: a WebAuthn key of user 1 with credential identifier \<open>c1 01\<close>, a TOTP
  record of user 1, a WebAuthn key of user 71 with identifier \<open>c2 02\<close> and a second key
  of user 1 with identifier \<open>c3 03\<close>. A further record of user 71, used in a second
  world, holds authenticator data without the attested-credential flag.
\<close>

definition example_user1 :: user where
  "example_user1 = \<lparr>user_pk = PInt 1\<rparr>"

definition example_user71 :: user where
  "example_user71 = \<lparr>user_pk = PInt 71\<rparr>"

definition example_key :: "pyval \<Rightarrow> string \<Rightarrow> string \<Rightarrow> bool \<Rightarrow> authenticator" where
  "example_key owner nm blob pwl =
     \<lparr>auth_user = owner, auth_type = WEBAUTHN,
      data = [(''name'', PStr nm), (''authenticator_data'', PStr blob),
              (''passwordless'', PBool pwl)]\<rparr>"

definition example_key1 :: authenticator where
  "example_key1 = example_key (PInt 1) ''first''
     ''AAECAwQFBgcICQoLDA0ODxAREhMUFRYXGBkaGxwdHh9BAAAABaChoqOkpaanqKmqq6ytrq8AAsEBpQ=='' False"

definition example_totp :: authenticator where
  "example_totp = \<lparr>auth_user = PInt 1, auth_type = TOTP, data = [(''secret'', PStr ''s3cr3t'')]\<rparr>"

definition example_key2 :: authenticator where
  "example_key2 = example_key (PInt 71) ''second''
     ''AAECAwQFBgcICQoLDA0ODxAREhMUFRYXGBkaGxwdHh9BAAAABaChoqOkpaanqKmqq6ytrq8AAsICpQ=='' True"

definition example_key3 :: authenticator where
  "example_key3 = example_key (PInt 1) ''third''
     ''AAECAwQFBgcICQoLDA0ODxAREhMUFRYXGBkaGxwdHh9BAAAABaChoqOkpaanqKmqq6ytrq8AAsMDpQ=='' False"

definition example_key_partial :: authenticator where
  "example_key_partial = example_key (PInt 71) ''partial''
     ''AAECAwQFBgcICQoLDA0ODxAREhMUFRYXGBkaGxwdHh8BAAAABQ=='' False"

definition example_world :: world where
  "example_world =
     \<lparr>session = Map.empty,
      authenticators = [example_key1, example_totp, example_key2, example_key3],
      users = [example_user1, example_user71],
      entropy = (\<lambda>i. of_int (7 * int i + 3)),
      calls = []\<rparr>"

definition example_world_partial :: world where
  "example_world_partial =
     example_world\<lparr>authenticators := [example_key2, example_key_partial]\<rparr>"

text \<open>The same two records of user 71 in the other storage order.\<close>

definition example_world_reordered :: world where
  "example_world_reordered =
     example_world\<lparr>authenticators := [example_key_partial, example_key2]\<rparr>"

text \<open>The challenge that the entropy of \<open>example_world\<close> yields, websafe-encoded, and
  client responses that answer it: a registration of a new key with identifier \<open>c9 09\<close>,
  an assertion by the key \<open>c1 01\<close> with user handle \<open>1\<close>, and one by the key \<open>c2 02\<close>
  with user handle \<open>1z\<close>.\<close>

definition example_challenge_str :: string where
  "example_challenge_str = ''AwoRGB8mLTQ7QklQV15lbHN6gYiPlp2kq7K5wMfO1dw''"

definition example_registration_response :: pyval where
  "example_registration_response =
     PDict [(''id'', PStr ''yQk''),
            (''challenge'', PStr example_challenge_str),
            (''authenticatorData'', PStr
               ''AAECAwQFBgcICQoLDA0ODxAREhMUFRYXGBkaGxwdHh9BAAAABaChoqOkpaanqKmqq6ytrq8AAskJpQ''),
            (''response'', PDict [])]"

definition example_authentication_response :: pyval where
  "example_authentication_response =
     PDict [(''id'', PStr ''wQE''),
            (''challenge'', PStr example_challenge_str),
            (''response'', PDict [(''userHandle'', PStr ''MQ'')])]"

definition example_passwordless_response :: pyval where
  "example_passwordless_response =
     PDict [(''id'', PStr ''wgI''),
            (''challenge'', PStr example_challenge_str),
            (''response'', PDict [(''userHandle'', PStr ''MXo'')])]"

text \<open>The worlds reached from \<open>example_world\<close> by beginning a registration for user 1,
  an authentication for user 1 and a passwordless authentication. Responses that the
  server object rejects: a registration answering another challenge, and an assertion by
  a key \<open>c9 09\<close> that is not registered.\<close>

definition example_world_registering :: world where
  "example_world_registering = snd (begin_registration example_env example_user1 example_world)"

definition example_world_authenticating :: world where
  "example_world_authenticating =
     snd (begin_authentication example_env (Some example_user1) example_world)"

definition example_world_passwordless :: world where
  "example_world_passwordless = snd (begin_authentication example_env None example_world)"



text \<open>A passwordless assertion whose user handle \<open>zz\<close> is the primary key 1295 of no
  account, and a response whose \<open>id\<close> is not websafe base64.\<close>

definition example_ghost_user_response :: pyval where
  "example_ghost_user_response =
     PDict [(''id'', PStr ''wgI''),
            (''challenge'', PStr example_challenge_str),
            (''response'', PDict [(''userHandle'', PStr ''eno'')])]"

definition example_malformed_id_response :: pyval where
  "example_malformed_id_response = PDict [(''id'', PStr ''a''), (''response'', PDict [])]"

text \<open>The challenge and the user-verification requirement that a logged begin call
  carried.\<close>

fun call_challenge :: "call \<Rightarrow> byte list option" where
  "call_challenge (RegisterBegin srv payload credentials uv challenge) = Some challenge"
| "call_challenge (AuthenticateBegin srv credentials uv challenge) = Some challenge"
| "call_challenge c = None"

fun call_user_verification :: "call \<Rightarrow> user_verification option" where
  "call_user_verification (RegisterBegin srv payload credentials uv challenge) = Some uv"
| "call_user_verification (AuthenticateBegin srv credentials uv challenge) = Some uv"
| "call_user_verification c = None"

section \<open>Properties\<close>

subsection \<open>Session bookkeeping\<close>

lemma session_session_set: "session (session_set k v w) = (session w)(k \<mapsto> v)"
  by (simp add: session_set_def)

lemma session_session_pop: "session (session_pop k w) = (session w)(k := None)"
  by (simp add: session_pop_def)

lemma session_log_call: "session (log_call c w) = session w"
  by (simp add: log_call_def)

lemma session_cleared:
  "session (clear_state (consume_challenge w)) =
     (session w)(CHALLENGE_SESSION_KEY := None, STATE_SESSION_KEY := None)"
  by (simp add: clear_state_def consume_challenge_def session_session_pop)

subsection \<open>Claim C2: what a successful completion leaves in the session\<close>

text \<open>
  Claim C2. After a successful call of \<open>complete_registration\<close> or of
  \<open>complete_authentication\<close>, that is, one that returns rather than raises, neither the
  challenge key nor the ceremony-state key is in the session.
\<close>

theorem C2_successful_complete_clears_session:
  "(complete_registration E credential w = (Inr binding, w') \<longrightarrow>
      session w' CHALLENGE_SESSION_KEY = None \<and> session w' STATE_SESSION_KEY = None) \<and>
   (complete_authentication E usr response w = (Inr found, w'') \<longrightarrow>
      session w'' CHALLENGE_SESSION_KEY = None \<and> session w'' STATE_SESSION_KEY = None)"
  by (auto simp: complete_registration_def complete_authentication_def Let_def
        session_cleared session_log_call
      split: sum.splits option.splits if_splits)

theorem C2_witness:
  "\<not> isl (fst (complete_registration example_env example_registration_response
              example_world_registering)) \<and>
   session (snd (complete_registration example_env example_registration_response
              example_world_registering)) CHALLENGE_SESSION_KEY = None \<and>
   session (snd (complete_registration example_env example_registration_response
              example_world_registering)) STATE_SESSION_KEY = None \<and>
   \<not> isl (fst (complete_authentication example_env (Some example_user1)
              example_authentication_response example_world_authenticating)) \<and>
   session (snd (complete_authentication example_env (Some example_user1)
              example_authentication_response example_world_authenticating))
     CHALLENGE_SESSION_KEY = None \<and>
   session (snd (complete_authentication example_env (Some example_user1)
              example_authentication_response example_world_authenticating))
     STATE_SESSION_KEY = None"
proof -
  let ?r = "complete_registration example_env example_registration_response
              example_world_registering"
  let ?a = "complete_authentication example_env (Some example_user1)
              example_authentication_response example_world_authenticating"
  have r: "\<not> isl (fst ?r)" by code_simp
  have a: "\<not> isl (fst ?a)" by code_simp
  from r obtain b where rb: "?r = (Inr b, snd ?r)"
    by (cases ?r; cases "fst ?r") auto
  from a obtain f where af: "?a = (Inr f, snd ?a)"
    by (cases ?a; cases "fst ?a") auto
  note C2_successful_complete_clears_session
         [where E = example_env and credential = example_registration_response
            and w = example_world_registering and binding = b and w' = "snd ?r",
          THEN conjunct1, rule_format, OF rb]
       C2_successful_complete_clears_session
         [where E = example_env and usr = "Some example_user1"
            and response = example_authentication_response
            and w = example_world_authenticating and found = f and w'' = "snd ?a",
          THEN conjunct2, rule_format, OF af]
  with r a show ?thesis
    by simp
qed


subsection \<open>Claim C1: what a rejected completion leaves in the session\<close>




subsection \<open>The challenge manager\<close>

lemma session_keys_distinct: "CHALLENGE_SESSION_KEY \<noteq> STATE_SESSION_KEY"
  by (simp add: CHALLENGE_SESSION_KEY_def STATE_SESSION_KEY_def)

lemma generate_challenge_stored:
  "session w CHALLENGE_SESSION_KEY = Some v \<Longrightarrow> v \<noteq> PNone \<Longrightarrow>
   generate_challenge E w = (websafe_decode E v, w)"
  by (simp add: generate_challenge_def session_get_def)

lemma generate_challenge_fresh:
  "session w CHALLENGE_SESSION_KEY = None \<or> session w CHALLENGE_SESSION_KEY = Some PNone \<Longrightarrow>
   generate_challenge E w =
     (Inr (map (entropy w) [0..<32]),
      session_set CHALLENGE_SESSION_KEY (PStr (websafe_encode E (map (entropy w) [0..<32])))
        (w\<lparr>entropy := (\<lambda>i. entropy w (32 + i))\<rparr>))"
  by (auto simp: generate_challenge_def session_get_def os_urandom_def)

text \<open>After a challenge was handed out, the session holds a value that decodes to it,
  provided the codec round-trips the bytes that were drawn.\<close>

lemma generate_challenge_holds:
  assumes "generate_challenge E w = (Inr c, w1)"
    and "websafe_decode E (PStr (websafe_encode E (map (entropy w) [0..<32])))
           = Inr (map (entropy w) [0..<32])"
  shows "\<exists>v. session w1 CHALLENGE_SESSION_KEY = Some v \<and> v \<noteq> PNone \<and>
             websafe_decode E v = Inr c"
proof (cases "session w CHALLENGE_SESSION_KEY = None \<or>
              session w CHALLENGE_SESSION_KEY = Some PNone")
  case True
  from generate_challenge_fresh [OF True, of E] assms show ?thesis
    by (auto simp: session_session_set)
next
  case False
  then obtain v where v: "session w CHALLENGE_SESSION_KEY = Some v" "v \<noteq> PNone"
    by (cases "session w CHALLENGE_SESSION_KEY") auto
  from generate_challenge_stored [OF v, of E] assms(1) v show ?thesis
    by auto
qed

lemma generate_challenge_again:
  assumes "generate_challenge E w = (Inr c, w1)"
    and "websafe_decode E (PStr (websafe_encode E (map (entropy w) [0..<32])))
           = Inr (map (entropy w) [0..<32])"
  shows "generate_challenge E w1 = (Inr c, w1)"
proof -
  from generate_challenge_holds [OF assms] obtain v
    where "session w1 CHALLENGE_SESSION_KEY = Some v" "v \<noteq> PNone" "websafe_decode E v = Inr c"
    by blast
  then show ?thesis
    by (simp add: generate_challenge_stored)
qed

lemma calls_session_set: "calls (session_set k v w) = calls w"
  by (simp add: session_set_def)

lemma calls_log_call: "calls (log_call c w) = calls w @ [c]"
  by (simp add: log_call_def)

lemma calls_generate_challenge:
  "generate_challenge E w = (r, w1) \<Longrightarrow> calls w1 = calls w"
  by (auto simp: generate_challenge_def os_urandom_def session_set_def Let_def
           split: if_splits)

lemma begin_registration_challenge:
  assumes "begin_registration E u w = (Inr opts, w2)"
  shows "\<exists>k c w1. generate_challenge E w = (Inr c, w1) \<and> calls w2 = calls w @ [k] \<and>
           call_challenge k = Some c \<and>
           session w2 CHALLENGE_SESSION_KEY = session w1 CHALLENGE_SESSION_KEY"
  using assms session_keys_distinct
  by (auto simp: begin_registration_def Let_def set_state_def session_session_set
        session_log_call calls_session_set calls_log_call
        dest!: calls_generate_challenge
      split: sum.splits prod.splits)

lemma begin_authentication_challenge:
  assumes "begin_authentication E usr w = (Inr opts, w2)"
  shows "\<exists>k c w1. generate_challenge E w = (Inr c, w1) \<and> calls w2 = calls w @ [k] \<and>
           call_challenge k = Some c \<and>
           session w2 CHALLENGE_SESSION_KEY = session w1 CHALLENGE_SESSION_KEY"
  using assms session_keys_distinct
  by (auto simp: begin_authentication_def Let_def set_state_def session_session_set
        session_log_call calls_session_set calls_log_call
        dest!: calls_generate_challenge
      split: sum.splits prod.splits)

lemma begin_twice_same_challenge:
  assumes first: "\<exists>k c w1. generate_challenge E w = (Inr c, w1) \<and> calls w2 = calls w @ [k] \<and>
           call_challenge k = Some c \<and>
           session w2 CHALLENGE_SESSION_KEY = session w1 CHALLENGE_SESSION_KEY"
    and second: "\<exists>k c w1. generate_challenge E w2 = (Inr c, w1) \<and> calls w3 = calls w2 @ [k] \<and>
           call_challenge k = Some c \<and>
           session w3 CHALLENGE_SESSION_KEY = session w1 CHALLENGE_SESSION_KEY"
    and rt: "websafe_decode E (PStr (websafe_encode E (map (entropy w) [0..<32])))
           = Inr (map (entropy w) [0..<32])"
  shows "\<exists>k1 k2 ch. calls w3 = calls w @ [k1, k2] \<and> call_challenge k1 = Some ch \<and>
           call_challenge k2 = Some ch"
proof -
  from first obtain k1 c w1 where
    g1: "generate_challenge E w = (Inr c, w1)" and c1: "calls w2 = calls w @ [k1]" and
    k1: "call_challenge k1 = Some c" and
    s1: "session w2 CHALLENGE_SESSION_KEY = session w1 CHALLENGE_SESSION_KEY"
    by blast
  from second obtain k2 c' w1' where
    g2: "generate_challenge E w2 = (Inr c', w1')" and c2: "calls w3 = calls w2 @ [k2]" and
    k2: "call_challenge k2 = Some c'"
    by blast
  from generate_challenge_holds [OF g1 rt] s1 obtain v where
    v: "session w2 CHALLENGE_SESSION_KEY = Some v" "v \<noteq> PNone" and d: "websafe_decode E v = Inr c"
    by auto
  from generate_challenge_stored [OF v, of E] g2 d have "c' = c"
    by simp
  with c1 c2 k1 k2 show ?thesis
    by simp
qed

subsection \<open>Claim C3: one challenge per session\<close>

text \<open>
  Claim C3. \<open>generate_challenge\<close> is idempotent per session. A challenge that is stored in
  the session is decoded and returned, and the world (session and entropy) is unchanged,
  so nothing is minted. With no challenge stored, the next 32 bytes of entropy are
  returned and their websafe encoding is stored under the challenge key. If the codec
  round-trips these bytes, a second call returns the same challenge, and two begin calls
  in a row (registration or authentication) hand the same challenge to the server object.
\<close>

theorem C3_generate_challenge_idempotent:
  "(session w CHALLENGE_SESSION_KEY = Some v \<and> v \<noteq> PNone \<longrightarrow>
      generate_challenge E w = (websafe_decode E v, w)) \<and>
   (session w CHALLENGE_SESSION_KEY = None \<or> session w CHALLENGE_SESSION_KEY = Some PNone \<longrightarrow>
      fst (generate_challenge E w) = Inr (map (entropy w) [0..<32]) \<and>
      length (map (entropy w) [0..<32]) = 32 \<and>
      session (snd (generate_challenge E w)) =
        (session w)(CHALLENGE_SESSION_KEY \<mapsto>
           PStr (websafe_encode E (map (entropy w) [0..<32])))) \<and>
   (websafe_decode E (PStr (websafe_encode E (map (entropy w) [0..<32])))
      = Inr (map (entropy w) [0..<32]) \<longrightarrow>
      (generate_challenge E w = (Inr c, w1) \<longrightarrow> generate_challenge E w1 = (Inr c, w1)) \<and>
      (begin_registration E u w = (Inr opts, w2) \<and>
       begin_registration E u' w2 = (Inr opts', w3) \<longrightarrow>
         (\<exists>k1 k2 ch. calls w3 = calls w @ [k1, k2] \<and> call_challenge k1 = Some ch \<and>
            call_challenge k2 = Some ch)) \<and>
      (begin_authentication E usr w = (Inr ropts, w4) \<and>
       begin_authentication E usr' w4 = (Inr ropts', w5) \<longrightarrow>
         (\<exists>k1 k2 ch. calls w5 = calls w @ [k1, k2] \<and> call_challenge k1 = Some ch \<and>
            call_challenge k2 = Some ch)))"
proof (intro conjI impI)
  assume "session w CHALLENGE_SESSION_KEY = Some v \<and> v \<noteq> PNone"
  then show "generate_challenge E w = (websafe_decode E v, w)"
    by (simp add: generate_challenge_stored)
next
  assume a: "session w CHALLENGE_SESSION_KEY = None \<or>
             session w CHALLENGE_SESSION_KEY = Some PNone"
  show "fst (generate_challenge E w) = Inr (map (entropy w) [0..<32])"
    by (simp add: generate_challenge_fresh [OF a])
  show "session (snd (generate_challenge E w)) =
          (session w)(CHALLENGE_SESSION_KEY \<mapsto>
             PStr (websafe_encode E (map (entropy w) [0..<32])))"
    by (simp add: generate_challenge_fresh [OF a] session_session_set)
next
  show "length (map (entropy w) [0..<32]) = 32"
    by simp
next
  assume rt: "websafe_decode E (PStr (websafe_encode E (map (entropy w) [0..<32])))
                = Inr (map (entropy w) [0..<32])"
    and g: "generate_challenge E w = (Inr c, w1)"
  then show "generate_challenge E w1 = (Inr c, w1)"
    by (simp add: generate_challenge_again)
next
  assume rt: "websafe_decode E (PStr (websafe_encode E (map (entropy w) [0..<32])))
                = Inr (map (entropy w) [0..<32])"
    and b: "begin_registration E u w = (Inr opts, w2) \<and>
            begin_registration E u' w2 = (Inr opts', w3)"
  from b have b1: "begin_registration E u w = (Inr opts, w2)"
    and b2: "begin_registration E u' w2 = (Inr opts', w3)"
    by simp_all
  show "\<exists>k1 k2 ch. calls w3 = calls w @ [k1, k2] \<and> call_challenge k1 = Some ch \<and>
          call_challenge k2 = Some ch"
    by (rule begin_twice_same_challenge
          [OF begin_registration_challenge [OF b1] begin_registration_challenge [OF b2] rt])
next
  assume rt: "websafe_decode E (PStr (websafe_encode E (map (entropy w) [0..<32])))
                = Inr (map (entropy w) [0..<32])"
    and b: "begin_authentication E usr w = (Inr ropts, w4) \<and>
            begin_authentication E usr' w4 = (Inr ropts', w5)"
  from b have b1: "begin_authentication E usr w = (Inr ropts, w4)"
    and b2: "begin_authentication E usr' w4 = (Inr ropts', w5)"
    by simp_all
  show "\<exists>k1 k2 ch. calls w5 = calls w @ [k1, k2] \<and> call_challenge k1 = Some ch \<and>
          call_challenge k2 = Some ch"
    by (rule begin_twice_same_challenge
          [OF begin_authentication_challenge [OF b1] begin_authentication_challenge [OF b2] rt])
qed

theorem C3_witness:
  "session example_world_registering CHALLENGE_SESSION_KEY = Some (PStr example_challenge_str) \<and>
   generate_challenge example_env example_world_registering =
     (websafe_decode example_env (PStr example_challenge_str), example_world_registering) \<and>
   session example_world CHALLENGE_SESSION_KEY = None \<and>
   fst (generate_challenge example_env example_world) = Inr (map (entropy example_world) [0..<32]) \<and>
   websafe_decode example_env
     (PStr (websafe_encode example_env (map (entropy example_world) [0..<32])))
     = Inr (map (entropy example_world) [0..<32]) \<and>
   generate_challenge example_env (snd (generate_challenge example_env example_world)) =
     (Inr (map (entropy example_world) [0..<32]),
      snd (generate_challenge example_env example_world)) \<and>
   (\<exists>k1 k2 ch.
      calls (snd (begin_registration example_env example_user71 example_world_registering)) =
        calls example_world @ [k1, k2] \<and>
      call_challenge k1 = Some ch \<and> call_challenge k2 = Some ch) \<and>
   (\<exists>k1 k2 ch.
      calls (snd (begin_authentication example_env None example_world_authenticating)) =
        calls example_world @ [k1, k2] \<and>
      call_challenge k1 = Some ch \<and> call_challenge k2 = Some ch)"
proof -
  let ?c = "map (entropy example_world) [0..<32]"
  let ?g = "generate_challenge example_env example_world"
  let ?r2 = "begin_registration example_env example_user71 example_world_registering"
  let ?a2 = "begin_authentication example_env None example_world_authenticating"
  have s1: "session example_world_registering CHALLENGE_SESSION_KEY
              = Some (PStr example_challenge_str)"
    by code_simp
  have s0: "session example_world CHALLENGE_SESSION_KEY = None"
    by code_simp
  have rt: "websafe_decode example_env (PStr (websafe_encode example_env ?c)) = Inr ?c"
    by code_simp
  have g: "fst ?g = Inr ?c"
    by code_simp
  have r1: "\<not> isl (fst (begin_registration example_env example_user1 example_world))"
    by code_simp
  have r2: "\<not> isl (fst ?r2)"
    by code_simp
  have a1: "\<not> isl (fst (begin_authentication example_env (Some example_user1) example_world))"
    by code_simp
  have a2: "\<not> isl (fst ?a2)"
    by code_simp
  from g have g': "?g = (Inr ?c, snd ?g)"
    by (simp add: prod_eq_iff)
  from r1 obtain o1 where o1:
    "begin_registration example_env example_user1 example_world
       = (Inr o1, example_world_registering)"
    unfolding example_world_registering_def
    by (cases "fst (begin_registration example_env example_user1 example_world)")
       (auto simp: prod_eq_iff)
  from r2 obtain o2 where o2: "?r2 = (Inr o2, snd ?r2)"
    by (cases "fst ?r2") (auto simp: prod_eq_iff)
  from a1 obtain p1 where p1:
    "begin_authentication example_env (Some example_user1) example_world
       = (Inr p1, example_world_authenticating)"
    unfolding example_world_authenticating_def
    by (cases "fst (begin_authentication example_env (Some example_user1) example_world)")
       (auto simp: prod_eq_iff)
  from a2 obtain p2 where p2: "?a2 = (Inr p2, snd ?a2)"
    by (cases "fst ?a2") (auto simp: prod_eq_iff)
  note stored = C3_generate_challenge_idempotent
         [where E = example_env and w = example_world_registering
            and v = "PStr example_challenge_str", THEN conjunct1, rule_format]
  note fresh = C3_generate_challenge_idempotent
         [where E = example_env and w = example_world
            and c = ?c and ?w1.0 = "snd ?g"
            and u = example_user1 and opts = o1 and ?w2.0 = example_world_registering
            and u' = example_user71 and opts' = o2 and ?w3.0 = "snd ?r2"
            and usr = "Some example_user1" and ropts = p1
            and ?w4.0 = example_world_authenticating
            and usr' = None and ropts' = p2 and ?w5.0 = "snd ?a2",
          THEN conjunct2, THEN conjunct2, rule_format, OF rt]
  from stored s1 have A: "generate_challenge example_env example_world_registering =
     (websafe_decode example_env (PStr example_challenge_str), example_world_registering)"
    by simp
  from fresh g' have B: "generate_challenge example_env (snd ?g) = (Inr ?c, snd ?g)"
    by blast
  from fresh o1 o2 have C: "\<exists>k1 k2 ch. calls (snd ?r2) = calls example_world @ [k1, k2] \<and>
      call_challenge k1 = Some ch \<and> call_challenge k2 = Some ch"
    by blast
  from fresh p1 p2 have D: "\<exists>k1 k2 ch. calls (snd ?a2) = calls example_world @ [k1, k2] \<and>
      call_challenge k1 = Some ch \<and> call_challenge k2 = Some ch"
    by blast
  from s1 A s0 g rt B C D show ?thesis
    by blast
qed

subsection \<open>Scanning the records\<close>

text \<open>A scan that has passed a prefix of records, each of which decodes to a credential
  with another identifier, continues with the rest.\<close>

lemma lookup_loop_skip:
  assumes "\<forall>x \<in> set xs. \<exists>c. record_credential_id E x = Inr c \<and> c \<noteq> cid"
  shows "get_authenticator_by_credential_id_loop E cid (xs @ ys) =
         get_authenticator_by_credential_id_loop E cid ys"
  using assms by (induction xs) auto

lemma lookup_loop_hit:
  assumes "record_credential_id E a = Inr cid"
  shows "get_authenticator_by_credential_id_loop E cid (a # ys) = Inr (Some a)"
  using assms by simp

text \<open>
  \<open>get_authenticator_by_credential_id\<close> does not depend on its user argument. Over
  records that all decode to a credential, it scans the records of type \<open>WEBAUTHN\<close> of
  all users in storage order: the first record whose decoded credential identifier is
  \<open>cid\<close> is returned, and when every record decodes to another identifier the result is
  \<^verbatim>\<open>None\<close>.
\<close>

lemma reverse_lookup_first_match:
  "get_authenticator_by_credential_id E usr cid w =
     get_authenticator_by_credential_id E usr' cid w \<and>
   (filter (\<lambda>a. auth_type a = WEBAUTHN) (authenticators w) = xs @ a # ys \<and>
    (\<forall>x \<in> set xs. \<exists>c. record_credential_id E x = Inr c \<and> c \<noteq> cid) \<and>
    record_credential_id E a = Inr cid \<longrightarrow>
      get_authenticator_by_credential_id E usr cid w = Inr (Some a)) \<and>
   ((\<forall>x \<in> set (filter (\<lambda>a. auth_type a = WEBAUTHN) (authenticators w)).
        \<exists>c. record_credential_id E x = Inr c \<and> c \<noteq> cid) \<longrightarrow>
      get_authenticator_by_credential_id E usr cid w = Inr None)"
proof (intro conjI impI)
  show "get_authenticator_by_credential_id E usr cid w =
          get_authenticator_by_credential_id E usr' cid w"
    by (simp add: get_authenticator_by_credential_id_def)
next
  assume h: "filter (\<lambda>a. auth_type a = WEBAUTHN) (authenticators w) = xs @ a # ys \<and>
    (\<forall>x \<in> set xs. \<exists>c. record_credential_id E x = Inr c \<and> c \<noteq> cid) \<and>
    record_credential_id E a = Inr cid"
  then have a: "record_credential_id E a = Inr cid"
    by blast
  from h have "get_authenticator_by_credential_id E usr cid w =
      get_authenticator_by_credential_id_loop E cid (a # ys)"
    by (simp add: get_authenticator_by_credential_id_def lookup_loop_skip)
  with lookup_loop_hit [OF a] show "get_authenticator_by_credential_id E usr cid w = Inr (Some a)"
    by simp
next
  assume h: "\<forall>x \<in> set (filter (\<lambda>a. auth_type a = WEBAUTHN) (authenticators w)).
        \<exists>c. record_credential_id E x = Inr c \<and> c \<noteq> cid"
  from lookup_loop_skip [OF h, of "[]"]
  show "get_authenticator_by_credential_id E usr cid w = Inr None"
    by (simp add: get_authenticator_by_credential_id_def)
qed

lemma reverse_lookup_first_match_example:
  "get_authenticator_by_credential_id example_env example_user1 [0xC1, 1] example_world
     = Inr (Some example_key1) \<and>
   get_authenticator_by_credential_id example_env example_user1 [0xC2, 2] example_world
     = Inr (Some example_key2) \<and>
   get_authenticator_by_credential_id example_env example_user71 [0xC3, 3] example_world
     = Inr (Some example_key3) \<and>
   get_authenticator_by_credential_id example_env example_user1 [0xC9, 9] example_world
     = Inr None \<and>
   get_authenticator_by_credential_id example_env example_user1 [0xC2, 2] example_world =
   get_authenticator_by_credential_id example_env example_user71 [0xC2, 2] example_world"
proof -
  have rows: "filter (\<lambda>a. auth_type a = WEBAUTHN) (authenticators example_world) =
                [example_key1, example_key2, example_key3]"
    by code_simp
  have k1: "record_credential_id example_env example_key1 = Inr [0xC1, 1]"
    by code_simp
  have k2: "record_credential_id example_env example_key2 = Inr [0xC2, 2]"
    by code_simp
  have k3: "record_credential_id example_env example_key3 = Inr [0xC3, 3]"
    by code_simp
  have A: "get_authenticator_by_credential_id example_env example_user1 [0xC1, 1] example_world
             = Inr (Some example_key1)"
    using reverse_lookup_first_match
            [where E = example_env and w = example_world and usr = example_user1
               and cid = "[0xC1, 1]" and xs = "[]" and a = example_key1
               and ys = "[example_key2, example_key3]", THEN conjunct2, THEN conjunct1]
          rows k1
    by simp
  have B: "get_authenticator_by_credential_id example_env example_user1 [0xC2, 2] example_world
             = Inr (Some example_key2)"
    using reverse_lookup_first_match
            [where E = example_env and w = example_world and usr = example_user1
               and cid = "[0xC2, 2]" and xs = "[example_key1]" and a = example_key2
               and ys = "[example_key3]", THEN conjunct2, THEN conjunct1]
          rows k1 k2
    by simp
  have C: "get_authenticator_by_credential_id example_env example_user71 [0xC3, 3] example_world
             = Inr (Some example_key3)"
    using reverse_lookup_first_match
            [where E = example_env and w = example_world and usr = example_user71
               and cid = "[0xC3, 3]" and xs = "[example_key1, example_key2]"
               and a = example_key3 and ys = "[]", THEN conjunct2, THEN conjunct1]
          rows k1 k2 k3
    by simp
  have D: "get_authenticator_by_credential_id example_env example_user1 [0xC9, 9] example_world
             = Inr None"
    using reverse_lookup_first_match
            [where E = example_env and w = example_world and usr = example_user1
               and cid = "[0xC9, 9]", THEN conjunct2, THEN conjunct2]
          rows k1 k2 k3
    by simp
  have E: "get_authenticator_by_credential_id example_env example_user1 [0xC2, 2] example_world =
           get_authenticator_by_credential_id example_env example_user71 [0xC2, 2] example_world"
    by (rule reverse_lookup_first_match [THEN conjunct1])
  from A B C D E show ?thesis
    by blast
qed

text \<open>The scan stops with \<^verbatim>\<open>AttributeError\<close> at the first record whose authenticator
  data has no attested credential, whatever identifier is looked up and whatever
  follows that record.\<close>

lemma lookup_raises_at_record_without_credential:
  assumes "filter (\<lambda>a. auth_type a = WEBAUTHN) (authenticators w) = a # ys"
    and "authenticator_data E (wrap a) = Inr ad" and "credential_data ad = None"
  shows "get_authenticator_by_credential_id E usr cid w = Inl AttributeError"
  using assms
  by (simp add: get_authenticator_by_credential_id_def record_credential_id_def)

subsection \<open>Claim C4: the reverse lookup\<close>

text \<open>
  Claim C4 says that \<open>get_authenticator_by_credential_id\<close> returns the first record, in
  storage order, whose decoded credential identifier equals the one looked up, and
  \<^verbatim>\<open>None\<close> when no record matches. The lemma \<open>reverse_lookup_first_match\<close> shows this for
  tables whose records all carry a credential. It fails where a record without
  credential data is stored, which \<open>get_credentials\<close> skips: with such a record stored
  before the key \<open>c2 02\<close>, the lookup of \<open>c2 02\<close> raises \<^verbatim>\<open>AttributeError\<close> instead of
  returning that key, although \<open>get_credentials\<close> lists its credential; and with such a
  record stored after it, the lookup of the unregistered \<open>c9 09\<close> raises instead of
  returning \<^verbatim>\<open>None\<close>.
\<close>

theorem C4_lookup_raises_at_partial_record:
  "filter (\<lambda>a. auth_type a = WEBAUTHN) (authenticators example_world_reordered)
     = [example_key_partial, example_key2] \<and>
   record_credential_id example_env example_key2 = Inr [0xC2, 2] \<and>
   map credential_id (projr (get_credentials example_env example_user71 example_world_reordered))
     = [[0xC2, 2]] \<and>
   get_authenticator_by_credential_id example_env example_user71 [0xC2, 2]
     example_world_reordered = Inl AttributeError \<and>
   filter (\<lambda>a. auth_type a = WEBAUTHN) (authenticators example_world_partial)
     = [example_key2, example_key_partial] \<and>
   get_authenticator_by_credential_id example_env example_user71 [0xC9, 9]
     example_world_partial = Inl AttributeError"
  by code_simp

subsection \<open>Claim C5: a verified assertion always resolves to a stored record\<close>










subsection \<open>Claim C6: a passwordless response whose user cannot be resolved\<close>

text \<open>Where the \<^verbatim>\<open>try\<close> block raises one of the three classes that the handler lists, or
  yields a primary key that no account has, the call fails with the validation error
  before the server object is called and leaves the world as it was.\<close>

lemma unresolvable_user_is_validation_error:
  assumes "(\<exists>e. extract_user_pk E response = Inl e \<and> (e = ValueError \<or> e = TypeError \<or> e = KeyError))
           \<or> (\<exists>pk. extract_user_pk E response = Inr pk \<and>
                  find (\<lambda>u. user_pk u = pk) (users w) = None)"
  shows "complete_authentication E None response w
           = (Inl (validation_error ''incorrect_code''), w)"
  using assms
  by (auto simp: complete_authentication_def extract_user_from_response_def)

lemma ghost_user_is_validation_error:
  "fst (complete_authentication example_env None example_ghost_user_response
          example_world_passwordless) = Inl (ValidationError ''incorrect_code'') \<and>
   calls (snd (complete_authentication example_env None example_ghost_user_response
          example_world_passwordless)) = calls example_world_passwordless"
  by code_simp

text \<open>
  Claim C6 holds for the responses covered by the lemma above. It fails for a response
  whose \<open>response\<close> member is not an object, for instance JSON \<^verbatim>\<open>null\<close>:
  \<^verbatim>\<open>response.get("response", {})\<close> then yields that member, calling \<^verbatim>\<open>.get\<close> on it raises
  \<^verbatim>\<open>AttributeError\<close>, and the handler of \<open>extract_user_from_response\<close> lists only
  \<^verbatim>\<open>ValueError\<close>, \<^verbatim>\<open>TypeError\<close> and \<^verbatim>\<open>KeyError\<close>. The exception leaves
  \<open>complete_authentication\<close> as it is, in every environment and every world.
\<close>

theorem C6_null_response_member_raises_attribute_error:
  "complete_authentication E None (PDict [(''response'', PNone)]) w = (Inl AttributeError, w)"
  by (simp add: complete_authentication_def extract_user_from_response_def
        extract_user_pk_def)

subsection \<open>Claim C7: responses that do not parse\<close>

text \<open>
  The claim says that no decode exception of the library leaves the two parse functions.
  Their handler lists \<^verbatim>\<open>TypeError\<close> only: in the example environment a response whose
  \<open>id\<close> is not websafe base64 makes \<open>from_dict\<close> raise \<^verbatim>\<open>ValueError\<close>, and that exception
  leaves both functions as it is.
\<close>

theorem C7_counterexample:
  "parse_registration_response example_env example_malformed_id_response = Inl ValueError \<and>
   parse_authentication_response example_env example_malformed_id_response = Inl ValueError"
  by code_simp

text \<open>
  Claim C7, as amended. When \<open>from_dict\<close> raises \<^verbatim>\<open>TypeError\<close>, which is what a response
  without the required fields produces, \<open>parse_registration_response\<close> and
  \<open>parse_authentication_response\<close> fail with the validation error \<open>incorrect_code\<close>. An
  exception of any other class leaves them unchanged, and a parsed response is returned
  as it is.
\<close>

theorem C7_type_error_becomes_validation_error:
  "(RegistrationResponse_from_dict E response = Inl TypeError \<longrightarrow>
      parse_registration_response E response = Inl (validation_error ''incorrect_code'')) \<and>
   (RegistrationResponse_from_dict E response = Inl e \<and> e \<noteq> TypeError \<longrightarrow>
      parse_registration_response E response = Inl e) \<and>
   (RegistrationResponse_from_dict E response = Inr parsed \<longrightarrow>
      parse_registration_response E response = Inr parsed) \<and>
   (AuthenticationResponse_from_dict E response = Inl TypeError \<longrightarrow>
      parse_authentication_response E response = Inl (validation_error ''incorrect_code'')) \<and>
   (AuthenticationResponse_from_dict E response = Inl e \<and> e \<noteq> TypeError \<longrightarrow>
      parse_authentication_response E response = Inl e) \<and>
   (AuthenticationResponse_from_dict E response = Inr parsed \<longrightarrow>
      parse_authentication_response E response = Inr parsed)"
  by (simp add: parse_registration_response_def parse_authentication_response_def)

theorem C7_witness:
  "RegistrationResponse_from_dict example_env (PDict [(''id'', PStr ''yQk'')]) = Inl TypeError \<and>
   parse_registration_response example_env (PDict [(''id'', PStr ''yQk'')])
     = Inl (ValidationError ''incorrect_code'') \<and>
   AuthenticationResponse_from_dict example_env (PList []) = Inl TypeError \<and>
   parse_authentication_response example_env (PList [])
     = Inl (ValidationError ''incorrect_code'') \<and>
   RegistrationResponse_from_dict example_env example_malformed_id_response = Inl ValueError \<and>
   parse_registration_response example_env example_malformed_id_response = Inl ValueError \<and>
   AuthenticationResponse_from_dict example_env example_malformed_id_response = Inl ValueError \<and>
   parse_authentication_response example_env example_malformed_id_response = Inl ValueError \<and>
   RegistrationResponse_from_dict example_env example_registration_response
     = Inr (PDict [(''id'', PBytes [0xC9, 9]), (''response'', PDict [])]) \<and>
   parse_registration_response example_env example_registration_response
     = Inr (PDict [(''id'', PBytes [0xC9, 9]), (''response'', PDict [])]) \<and>
   AuthenticationResponse_from_dict example_env example_authentication_response
     = Inr (PDict [(''id'', PBytes [0xC1, 1]),
                   (''response'', PDict [(''userHandle'', PStr ''MQ'')])]) \<and>
   parse_authentication_response example_env example_authentication_response
     = Inr (PDict [(''id'', PBytes [0xC1, 1]),
                   (''response'', PDict [(''userHandle'', PStr ''MQ'')])])"
proof -
  have t1: "RegistrationResponse_from_dict example_env (PDict [(''id'', PStr ''yQk'')])
              = Inl TypeError"
    by code_simp
  have t2: "AuthenticationResponse_from_dict example_env (PList []) = Inl TypeError"
    by code_simp
  have v1: "RegistrationResponse_from_dict example_env example_malformed_id_response
              = Inl ValueError"
    by code_simp
  have v2: "AuthenticationResponse_from_dict example_env example_malformed_id_response
              = Inl ValueError"
    by code_simp
  have p1: "RegistrationResponse_from_dict example_env example_registration_response
              = Inr (PDict [(''id'', PBytes [0xC9, 9]), (''response'', PDict [])])"
    by code_simp
  have p2: "AuthenticationResponse_from_dict example_env example_authentication_response
              = Inr (PDict [(''id'', PBytes [0xC1, 1]),
                            (''response'', PDict [(''userHandle'', PStr ''MQ'')])])"
    by code_simp
  note T = C7_type_error_becomes_validation_error [where E = example_env]
  from T [where response = "PDict [(''id'', PStr ''yQk'')]"] t1
  have a: "parse_registration_response example_env (PDict [(''id'', PStr ''yQk'')])
             = Inl (ValidationError ''incorrect_code'')"
    by (simp add: validation_error_def)
  from T [where response = "PList []"] t2
  have b: "parse_authentication_response example_env (PList [])
             = Inl (ValidationError ''incorrect_code'')"
    by (simp add: validation_error_def)
  from T [where response = example_malformed_id_response and e = ValueError] v1 v2
  have c: "parse_registration_response example_env example_malformed_id_response = Inl ValueError"
    and d: "parse_authentication_response example_env example_malformed_id_response
              = Inl ValueError"
    by simp_all
  from T [where response = example_registration_response] p1
  have e: "parse_registration_response example_env example_registration_response
             = Inr (PDict [(''id'', PBytes [0xC9, 9]), (''response'', PDict [])])"
    by simp
  from T [where response = example_authentication_response] p2
  have f: "parse_authentication_response example_env example_authentication_response
             = Inr (PDict [(''id'', PBytes [0xC1, 1]),
                           (''response'', PDict [(''userHandle'', PStr ''MQ'')])])"
    by simp
  from t1 a t2 b v1 c v2 d p1 e p2 f show ?thesis
    by blast
qed

subsection \<open>Claim C8: the credential set of a user\<close>

text \<open>The loop appends, in order, the credential data of the records that have one.\<close>

lemma get_credentials_loop_collects:
  assumes "\<forall>a \<in> set rows. \<not> isl (authenticator_data E (wrap a))"
  shows "get_credentials_loop E rows acc =
           Inr (acc @ List.map_filter
                        (\<lambda>a. credential_data (projr (authenticator_data E (wrap a)))) rows)"
  using assms
proof (induction rows arbitrary: acc)
  case Nil
  show ?case
    by (simp add: List.map_filter_simps)
next
  case (Cons a rows)
  from Cons.prems obtain ad where ad: "authenticator_data E (wrap a) = Inr ad"
    by (cases "authenticator_data E (wrap a)") auto
  from Cons.prems have rest: "\<forall>a \<in> set rows. \<not> isl (authenticator_data E (wrap a))"
    by simp
  show ?case
    by (cases "credential_data ad") (simp_all add: ad Cons.IH [OF rest] List.map_filter_simps)
qed

text \<open>
  Claim C8. \<open>get_credentials\<close> returns, in storage order, the credential data of each of
  the user's records of type \<open>WEBAUTHN\<close>, skipping the records whose decoded authenticator
  data has no credential data; a user with no such record gets the empty list. (Stated
  for stored blobs that decode; a blob that does not decode raises.)
\<close>

theorem C8_credentials_of_user:
  "((\<forall>a \<in> set (filter (\<lambda>a. auth_user a = user_pk usr \<and> auth_type a = WEBAUTHN)
                   (authenticators w)).
       \<not> isl (authenticator_data E (wrap a))) \<longrightarrow>
    get_credentials E usr w =
      Inr (List.map_filter (\<lambda>a. credential_data (projr (authenticator_data E (wrap a))))
             (filter (\<lambda>a. auth_user a = user_pk usr \<and> auth_type a = WEBAUTHN)
                (authenticators w)))) \<and>
   (filter (\<lambda>a. auth_user a = user_pk usr \<and> auth_type a = WEBAUTHN) (authenticators w) = []
      \<longrightarrow> get_credentials E usr w = Inr [])"
proof (intro conjI impI)
  assume "\<forall>a \<in> set (filter (\<lambda>a. auth_user a = user_pk usr \<and> auth_type a = WEBAUTHN)
                   (authenticators w)). \<not> isl (authenticator_data E (wrap a))"
  from get_credentials_loop_collects [OF this, of "[]"]
  show "get_credentials E usr w =
      Inr (List.map_filter (\<lambda>a. credential_data (projr (authenticator_data E (wrap a))))
             (filter (\<lambda>a. auth_user a = user_pk usr \<and> auth_type a = WEBAUTHN)
                (authenticators w)))"
    by (simp add: get_credentials_def)
next
  assume "filter (\<lambda>a. auth_user a = user_pk usr \<and> auth_type a = WEBAUTHN) (authenticators w)
            = []"
  then show "get_credentials E usr w = Inr []"
    by (simp add: get_credentials_def)
qed

theorem C8_witness:
  "filter (\<lambda>a. auth_user a = user_pk example_user71 \<and> auth_type a = WEBAUTHN)
     (authenticators example_world_partial) = [example_key2, example_key_partial] \<and>
   map (\<lambda>a. map_option credential_id
               (credential_data (projr (authenticator_data example_env (wrap a)))))
     [example_key2, example_key_partial] = [Some [0xC2, 2], None] \<and>
   get_credentials example_env example_user71 example_world_partial =
     Inr [the (credential_data (projr (authenticator_data example_env (wrap example_key2))))] \<and>
   filter (\<lambda>a. auth_user a = user_pk \<lparr>user_pk = PInt 5\<rparr> \<and> auth_type a = WEBAUTHN)
     (authenticators example_world) = [] \<and>
   get_credentials example_env \<lparr>user_pk = PInt 5\<rparr> example_world = Inr []"
proof -
  let ?rows = "filter (\<lambda>a. auth_user a = user_pk example_user71 \<and> auth_type a = WEBAUTHN)
     (authenticators example_world_partial)"
  have rows: "?rows = [example_key2, example_key_partial]"
    by code_simp
  have dec: "\<forall>a \<in> set ?rows. \<not> isl (authenticator_data example_env (wrap a))"
    by code_simp
  have ids: "map (\<lambda>a. map_option credential_id
               (credential_data (projr (authenticator_data example_env (wrap a)))))
     [example_key2, example_key_partial] = [Some [0xC2, 2], None]"
    by code_simp
  have none: "filter (\<lambda>a. auth_user a = user_pk \<lparr>user_pk = PInt 5\<rparr> \<and> auth_type a = WEBAUTHN)
     (authenticators example_world) = []"
    by code_simp
  from ids obtain cd where
    cd: "credential_data (projr (authenticator_data example_env (wrap example_key2))) = Some cd"
    and no: "credential_data (projr (authenticator_data example_env (wrap example_key_partial)))
               = None"
    by auto
  from C8_credentials_of_user
         [where E = example_env and usr = example_user71 and w = example_world_partial,
          THEN conjunct1, THEN mp, OF dec]
  have A: "get_credentials example_env example_user71 example_world_partial =
     Inr [the (credential_data (projr (authenticator_data example_env (wrap example_key2))))]"
    by (simp add: rows List.map_filter_simps cd no)
  from C8_credentials_of_user
         [where E = example_env and usr = "\<lparr>user_pk = PInt 5\<rparr>" and w = example_world,
          THEN conjunct2, THEN mp, OF none]
  have B: "get_credentials example_env \<lparr>user_pk = PInt 5\<rparr> example_world = Inr []" .
  from rows ids A none B show ?thesis
    by blast
qed

subsection \<open>Claim C9: the record adapter\<close>

text \<open>The constructor of the example environment keeps the bytes it is given, as the
  library's \<^verbatim>\<open>AuthenticatorData\<close>, a byte string, does.\<close>

lemma example_AuthenticatorData_keeps_bytes:
  "example_AuthenticatorData raw = Inr ad \<Longrightarrow> ad_bytes ad = raw"
  by (auto simp: example_AuthenticatorData_def Let_def split: if_splits)

text \<open>
  Claim C9. A record created by \<open>add usr nm d p\<close> is appended to the table; read back,
  through the returned wrapper or through the stored row, its \<open>is_passwordless\<close> is \<open>p\<close>,
  its \<open>name\<close> is \<open>nm\<close>, and its \<open>authenticator_data\<close> is the object built from the base64
  decoding of \<open>d\<close>. With a constructor that keeps the bytes it is given, as the library's
  does, the bytes of the decoded object are the base64 decoding of \<open>d\<close>: whenever the
  adapter returns an object \<open>ad\<close>, \<open>d\<close> decodes to \<open>ad_bytes ad\<close>, and when \<open>d\<close> decodes to
  \<open>raw\<close> and \<open>raw\<close> parses, the adapter returns an object whose bytes are \<open>raw\<close>.
\<close>

theorem C9_adapter_round_trip:
  "authenticators (snd (add usr nm d p w)) = authenticators w @ [wa_instance (fst (add usr nm d p w))] \<and>
   wrap (last (authenticators (snd (add usr nm d p w)))) = fst (add usr nm d p w) \<and>
   auth_user (wa_instance (fst (add usr nm d p w))) = user_pk usr \<and>
   auth_type (wa_instance (fst (add usr nm d p w))) = WEBAUTHN \<and>
   is_passwordless (fst (add usr nm d p w)) = Inr (PBool p) \<and>
   name (fst (add usr nm d p w)) = Inr (PStr nm) \<and>
   authenticator_data E (fst (add usr nm d p w)) =
     (case b64decode E (PStr d) of Inl e \<Rightarrow> Inl e | Inr raw \<Rightarrow> AuthenticatorData E raw) \<and>
   (b64decode E (PStr d) = Inr raw \<and> AuthenticatorData E raw = Inr ad \<longrightarrow>
      authenticator_data E (wrap (last (authenticators (snd (add usr nm d p w))))) = Inr ad) \<and>
   ((\<forall>bs x. AuthenticatorData E bs = Inr x \<longrightarrow> ad_bytes x = bs) \<longrightarrow>
      (authenticator_data E (wrap (last (authenticators (snd (add usr nm d p w))))) = Inr ad'
         \<longrightarrow> b64decode E (PStr d) = Inr (ad_bytes ad')) \<and>
      (b64decode E (PStr d) = Inr raw \<and> AuthenticatorData E raw = Inr ad \<longrightarrow>
         authenticator_data E (wrap (last (authenticators (snd (add usr nm d p w))))) = Inr ad \<and>
         ad_bytes ad = raw))"
proof -
  let ?wa = "fst (add usr nm d p w)"
  have last: "wrap (last (authenticators (snd (add usr nm d p w)))) = ?wa"
    by (simp add: add_def Let_def wrap_def)
  have eq: "authenticator_data E ?wa =
     (case b64decode E (PStr d) of Inl e \<Rightarrow> Inl e | Inr raw \<Rightarrow> AuthenticatorData E raw)"
    by (simp add: add_def Let_def authenticator_data_def py_getitem_def)
  have basic:
    "authenticators (snd (add usr nm d p w)) = authenticators w @ [wa_instance ?wa]"
    "auth_user (wa_instance ?wa) = user_pk usr"
    "auth_type (wa_instance ?wa) = WEBAUTHN"
    "is_passwordless ?wa = Inr (PBool p)"
    "name ?wa = Inr (PStr nm)"
    by (simp_all add: add_def Let_def is_passwordless_def name_def py_getitem_def)
  have fwd: "authenticator_data E ?wa = Inr ad"
    if "b64decode E (PStr d) = Inr raw \<and> AuthenticatorData E raw = Inr ad"
    using that by (simp add: eq)
  have bytes: "b64decode E (PStr d) = Inr (ad_bytes ad')"
    if keep: "\<forall>bs x. AuthenticatorData E bs = Inr x \<longrightarrow> ad_bytes x = bs"
      and got: "authenticator_data E ?wa = Inr ad'"
  proof (cases "b64decode E (PStr d)")
    case (Inl e)
    with got eq show ?thesis
      by simp
  next
    case (Inr bs)
    with got eq have "AuthenticatorData E bs = Inr ad'"
      by simp
    with keep have "ad_bytes ad' = bs"
      by blast
    with Inr show ?thesis
      by simp
  qed
  from last eq basic fwd bytes show ?thesis
    by auto
qed

theorem C9_witness:
  "b64decode example_env (PStr ''AAECAwQFBgcICQoLDA0ODxAREhMUFRYXGBkaGxwdHh8BAAAABQ=='')
     = Inr (map of_int [0..31] @ [1, 0, 0, 0, 5]) \<and>
   AuthenticatorData example_env (map of_int [0..31] @ [1, 0, 0, 0, 5])
     = Inr \<lparr>ad_bytes = map of_int [0..31] @ [1, 0, 0, 0, 5], credential_data = None\<rparr> \<and>
   authenticator_data example_env
     (wrap (last (authenticators (snd (add example_user71 ''new key''
        ''AAECAwQFBgcICQoLDA0ODxAREhMUFRYXGBkaGxwdHh8BAAAABQ=='' True example_world)))))
     = Inr \<lparr>ad_bytes = map of_int [0..31] @ [1, 0, 0, 0, 5], credential_data = None\<rparr> \<and>
   ad_bytes \<lparr>ad_bytes = map of_int [0..31] @ [1, 0, 0, 0, 5], credential_data = None\<rparr>
     = map of_int [0..31] @ [1, 0, 0, 0, 5] \<and>
   is_passwordless (wrap (last (authenticators (snd (add example_user71 ''new key''
        ''AAECAwQFBgcICQoLDA0ODxAREhMUFRYXGBkaGxwdHh8BAAAABQ=='' True example_world)))))
     = Inr (PBool True)"
proof -
  let ?d = "''AAECAwQFBgcICQoLDA0ODxAREhMUFRYXGBkaGxwdHh8BAAAABQ==''"
  let ?raw = "map of_int [0..31] @ [1, 0, 0, 0, 5] :: byte list"
  let ?ad = "\<lparr>ad_bytes = ?raw, credential_data = None\<rparr>"
  let ?row = "wrap (last (authenticators
                (snd (add example_user71 ''new key'' ?d True example_world))))"
  have b: "b64decode example_env (PStr ?d) = Inr ?raw"
    by code_simp
  have a: "AuthenticatorData example_env ?raw = Inr ?ad"
    by code_simp
  have keep: "\<forall>bs x. AuthenticatorData example_env bs = Inr x \<longrightarrow> ad_bytes x = bs"
    by (simp add: example_env_def example_AuthenticatorData_keeps_bytes)
  note T = C9_adapter_round_trip
             [where E = example_env and usr = example_user71 and nm = "''new key''"
                and d = ?d and p = True and w = example_world and raw = ?raw and ad = ?ad]
  from T keep b a have "authenticator_data example_env ?row = Inr ?ad \<and> ad_bytes ?ad = ?raw"
    by blast
  moreover from T have "is_passwordless ?row = Inr (PBool True)"
    by metis
  ultimately show ?thesis
    using b a by blast
qed

subsection \<open>Claim C10: what the begin calls pass to the server object\<close>

text \<open>
  Claim C10. Whatever its outcome, \<open>begin_registration\<close> calls the server object at most
  once, with user verification \<open>DISCOURAGED\<close>, and \<open>begin_authentication\<close> at most once,
  with \<open>PREFERRED\<close>; called without a user, \<open>begin_authentication\<close> passes the empty
  credential list, and with a user that user's credentials. A begin call that returns
  has made its call, and returns the options that the server object answered.
\<close>

theorem C10_begin_call_parameters:
  "(begin_registration E u w = (r, w') \<longrightarrow>
      calls w' = calls w \<or>
      (\<exists>payload credentials challenge.
         calls w' = calls w @
           [RegisterBegin (get_server E) payload credentials DISCOURAGED challenge] \<and>
         get_credentials E u w = Inr credentials)) \<and>
   (begin_registration E u w = (Inr opts, w') \<longrightarrow>
      (\<exists>payload credentials challenge state.
         calls w' = calls w @
           [RegisterBegin (get_server E) payload credentials DISCOURAGED challenge] \<and>
         register_begin E (get_server E) payload credentials DISCOURAGED challenge
           = Inr (opts, state))) \<and>
   (begin_authentication E usr w = (r', w'') \<longrightarrow>
      calls w'' = calls w \<or>
      (\<exists>credentials challenge.
         calls w'' = calls w @
           [AuthenticateBegin (get_server E) credentials PREFERRED challenge] \<and>
         (usr = None \<longrightarrow> credentials = []) \<and>
         (\<forall>u'. usr = Some u' \<longrightarrow> get_credentials E u' w = Inr credentials))) \<and>
   (begin_authentication E usr w = (Inr ropts, w'') \<longrightarrow>
      (\<exists>credentials challenge state.
         calls w'' = calls w @
           [AuthenticateBegin (get_server E) credentials PREFERRED challenge] \<and>
         (usr = None \<longrightarrow> credentials = []) \<and>
         authenticate_begin E (get_server E) credentials PREFERRED challenge
           = Inr (ropts, state)))"
proof (intro conjI impI)
  assume "begin_registration E u w = (r, w')"
  then show "calls w' = calls w \<or>
      (\<exists>payload credentials challenge.
         calls w' = calls w @
           [RegisterBegin (get_server E) payload credentials DISCOURAGED challenge] \<and>
         get_credentials E u w = Inr credentials)"
    by (auto simp: begin_registration_def Let_def set_state_def calls_session_set
          calls_log_call dest!: calls_generate_challenge
        split: sum.splits prod.splits)
next
  assume "begin_registration E u w = (Inr opts, w')"
  then show "\<exists>payload credentials challenge state.
         calls w' = calls w @
           [RegisterBegin (get_server E) payload credentials DISCOURAGED challenge] \<and>
         register_begin E (get_server E) payload credentials DISCOURAGED challenge
           = Inr (opts, state)"
    by (auto simp: begin_registration_def Let_def set_state_def calls_session_set
          calls_log_call dest!: calls_generate_challenge
        split: sum.splits prod.splits)
next
  assume "begin_authentication E usr w = (r', w'')"
  then show "calls w'' = calls w \<or>
      (\<exists>credentials challenge.
         calls w'' = calls w @
           [AuthenticateBegin (get_server E) credentials PREFERRED challenge] \<and>
         (usr = None \<longrightarrow> credentials = []) \<and>
         (\<forall>u'. usr = Some u' \<longrightarrow> get_credentials E u' w = Inr credentials))"
    by (auto simp: begin_authentication_def Let_def set_state_def calls_session_set
          calls_log_call dest!: calls_generate_challenge
        split: sum.splits prod.splits option.splits)
next
  assume "begin_authentication E usr w = (Inr ropts, w'')"
  then show "\<exists>credentials challenge state.
         calls w'' = calls w @
           [AuthenticateBegin (get_server E) credentials PREFERRED challenge] \<and>
         (usr = None \<longrightarrow> credentials = []) \<and>
         authenticate_begin E (get_server E) credentials PREFERRED challenge
           = Inr (ropts, state)"
    by (auto simp: begin_authentication_def Let_def set_state_def calls_session_set
          calls_log_call dest!: calls_generate_challenge
        split: sum.splits prod.splits option.splits)
qed

theorem C10_witness:
  "\<not> isl (fst (begin_registration example_env example_user1 example_world)) \<and>
   map call_user_verification (calls example_world_registering) = [Some DISCOURAGED] \<and>
   \<not> isl (fst (begin_authentication example_env None example_world)) \<and>
   (\<exists>challenge. calls example_world_passwordless =
      [AuthenticateBegin (get_server example_env) [] PREFERRED challenge])"
proof -
  let ?r = "begin_registration example_env example_user1 example_world"
  let ?a = "begin_authentication example_env None example_world"
  have e: "calls example_world = []"
    by (simp add: example_world_def)
  have r: "\<not> isl (fst ?r)"
    by code_simp
  have a: "\<not> isl (fst ?a)"
    by code_simp
  from r obtain opts where o: "?r = (Inr opts, example_world_registering)"
    unfolding example_world_registering_def
    by (cases "fst ?r") (auto simp: prod_eq_iff)
  from a obtain ropts where p: "?a = (Inr ropts, example_world_passwordless)"
    unfolding example_world_passwordless_def
    by (cases "fst ?a") (auto simp: prod_eq_iff)
  from C10_begin_call_parameters
         [where E = example_env and u = example_user1 and w = example_world
            and opts = opts and w' = example_world_registering,
          THEN conjunct2, THEN conjunct1, THEN mp, OF o] e
  have A: "map call_user_verification (calls example_world_registering) = [Some DISCOURAGED]"
    by auto
  from C10_begin_call_parameters
         [where E = example_env and usr = None and w = example_world
            and ropts = ropts and w'' = example_world_passwordless,
          THEN conjunct2, THEN conjunct2, THEN conjunct2, THEN mp, OF p] e
  have B: "\<exists>challenge. calls example_world_passwordless =
      [AuthenticateBegin (get_server example_env) [] PREFERRED challenge]"
    by auto
  from r A a B show ?thesis
    by blast
qed

end
